theory Spec2Isabelle
  imports Complex_Main
begin

section \<open>Numbers and vectors of the program\<close>

text \<open>
  The module \<^verbatim>\<open>plasmapy/physics/magnetostatics.py\<close> computes with numpy float64
  scalars and arrays of shape (3,). A float is modelled as an exact real number or one of
  the three special values of IEEE 754: rounding, overflow and underflow are idealised away,
  the special values are kept, because numpy does not raise on a division by zero but
  returns an infinity or NaN. Every divisor of the module is a Euclidean norm, a power of
  one, a sum of squares or a positive constant, so a zero divisor is the positive zero.
\<close>

datatype fnum = Fin real | PInf | NInf | NaN

fun fneg :: "fnum \<Rightarrow> fnum" where
  "fneg (Fin a) = Fin (- a)"
| "fneg PInf = NInf"
| "fneg NInf = PInf"
| "fneg NaN = NaN"

fun fadd :: "fnum \<Rightarrow> fnum \<Rightarrow> fnum" where
  "fadd (Fin a) (Fin b) = Fin (a + b)"
| "fadd NaN _ = NaN"
| "fadd _ NaN = NaN"
| "fadd PInf NInf = NaN"
| "fadd NInf PInf = NaN"
| "fadd PInf _ = PInf"
| "fadd _ PInf = PInf"
| "fadd NInf _ = NInf"
| "fadd _ NInf = NInf"

definition fsub :: "fnum \<Rightarrow> fnum \<Rightarrow> fnum" where
  "fsub x y = fadd x (fneg y)"

text \<open>The infinity of the sign of a non-zero real.\<close>

definition inf_of :: "real \<Rightarrow> fnum" where
  "inf_of a = (if 0 < a then PInf else NInf)"

fun fmul :: "fnum \<Rightarrow> fnum \<Rightarrow> fnum" where
  "fmul (Fin a) (Fin b) = Fin (a * b)"
| "fmul NaN _ = NaN"
| "fmul _ NaN = NaN"
| "fmul (Fin a) PInf = (if a = 0 then NaN else inf_of a)"
| "fmul (Fin a) NInf = (if a = 0 then NaN else inf_of (- a))"
| "fmul PInf (Fin b) = (if b = 0 then NaN else inf_of b)"
| "fmul NInf (Fin b) = (if b = 0 then NaN else inf_of (- b))"
| "fmul PInf PInf = PInf"
| "fmul PInf NInf = NInf"
| "fmul NInf PInf = NInf"
| "fmul NInf NInf = PInf"

fun fdiv :: "fnum \<Rightarrow> fnum \<Rightarrow> fnum" where
  "fdiv (Fin a) (Fin b) =
     (if b \<noteq> 0 then Fin (a / b) else if a = 0 then NaN else inf_of a)"
| "fdiv NaN _ = NaN"
| "fdiv _ NaN = NaN"
| "fdiv (Fin a) PInf = Fin 0"
| "fdiv (Fin a) NInf = Fin 0"
| "fdiv PInf (Fin b) = (if b < 0 then NInf else PInf)"
| "fdiv NInf (Fin b) = (if b < 0 then PInf else NInf)"
| "fdiv PInf PInf = NaN"
| "fdiv PInf NInf = NaN"
| "fdiv NInf PInf = NaN"
| "fdiv NInf NInf = NaN"

fun fsqrt :: "fnum \<Rightarrow> fnum" where
  "fsqrt (Fin a) = (if 0 \<le> a then Fin (sqrt a) else NaN)"
| "fsqrt PInf = PInf"
| "fsqrt NInf = NaN"
| "fsqrt NaN = NaN"

fun fsin :: "fnum \<Rightarrow> fnum" where
  "fsin (Fin a) = Fin (sin a)"
| "fsin _ = NaN"

fun fcos :: "fnum \<Rightarrow> fnum" where
  "fcos (Fin a) = Fin (cos a)"
| "fcos _ = NaN"

text \<open>\<^verbatim>\<open>x**k\<close> for the exponents 3 and 5 of the module, as repeated multiplication.\<close>

primrec fpow :: "fnum \<Rightarrow> nat \<Rightarrow> fnum" where
  "fpow x 0 = Fin 1"
| "fpow x (Suc k) = fmul x (fpow x k)"

text \<open>Comparisons: every comparison with NaN is false.\<close>

fun flt :: "fnum \<Rightarrow> fnum \<Rightarrow> bool" where
  "flt (Fin a) (Fin b) = (a < b)"
| "flt NaN _ = False"
| "flt _ NaN = False"
| "flt NInf NInf = False"
| "flt NInf _ = True"
| "flt PInf _ = False"
| "flt _ PInf = True"
| "flt _ NInf = False"

definition feq :: "fnum \<Rightarrow> fnum \<Rightarrow> bool" where
  "feq x y = (x \<noteq> NaN \<and> x = y)"

text \<open>Arrays of shape (3,) and numpy's elementwise operations on them.\<close>

type_synonym fvec = "fnum \<times> fnum \<times> fnum"

fun vadd :: "fvec \<Rightarrow> fvec \<Rightarrow> fvec" where
  "vadd (a1, a2, a3) (b1, b2, b3) = (fadd a1 b1, fadd a2 b2, fadd a3 b3)"

fun vsub :: "fvec \<Rightarrow> fvec \<Rightarrow> fvec" where
  "vsub (a1, a2, a3) (b1, b2, b3) = (fsub a1 b1, fsub a2 b2, fsub a3 b3)"

fun vneg :: "fvec \<Rightarrow> fvec" where
  "vneg (a1, a2, a3) = (fneg a1, fneg a2, fneg a3)"

text \<open>\<^verbatim>\<open>s*v\<close>, \<^verbatim>\<open>v*s\<close> and \<^verbatim>\<open>v/s\<close> for a scalar \<open>s\<close>.\<close>

fun smul :: "fnum \<Rightarrow> fvec \<Rightarrow> fvec" where
  "smul s (a1, a2, a3) = (fmul s a1, fmul s a2, fmul s a3)"

fun vmuls :: "fvec \<Rightarrow> fnum \<Rightarrow> fvec" where
  "vmuls (a1, a2, a3) s = (fmul a1 s, fmul a2 s, fmul a3 s)"

fun vdivs :: "fvec \<Rightarrow> fnum \<Rightarrow> fvec" where
  "vdivs (a1, a2, a3) s = (fdiv a1 s, fdiv a2 s, fdiv a3 s)"

text \<open>\<^verbatim>\<open>np.dot\<close>, \<^verbatim>\<open>np.cross\<close> and \<^verbatim>\<open>np.linalg.norm\<close>.\<close>

fun dot :: "fvec \<Rightarrow> fvec \<Rightarrow> fnum" where
  "dot (a1, a2, a3) (b1, b2, b3) = fadd (fadd (fmul a1 b1) (fmul a2 b2)) (fmul a3 b3)"

fun cross :: "fvec \<Rightarrow> fvec \<Rightarrow> fvec" where
  "cross (a1, a2, a3) (b1, b2, b3) =
     (fsub (fmul a2 b3) (fmul a3 b2),
      fsub (fmul a3 b1) (fmul a1 b3),
      fsub (fmul a1 b2) (fmul a2 b1))"

definition vnorm :: "fvec \<Rightarrow> fnum" where
  "vnorm v = fsqrt (dot v v)"

text \<open>\<^verbatim>\<open>np.all(a == b)\<close>.\<close>

fun all_eq :: "fvec \<Rightarrow> fvec \<Rightarrow> bool" where
  "all_eq (a1, a2, a3) (b1, b2, b3) = (feq a1 b1 \<and> feq a2 b2 \<and> feq a3 b3)"

text \<open>The exceptions the module raises, and Python's own on a division by the integer 0.\<close>

datatype error =
    ValueError_not_callable
  | ValueError_t1_not_smaller fnum fnum
  | ValueError_same_point
  | ValueError_radius
  | ZeroDivisionError

section \<open>The field sources\<close>

text \<open>
  \<^verbatim>\<open>constants.mu0.value\<close> belongs to astropy and is a parameter \<open>mu0\<close> of every
  field function; \<^verbatim>\<open>np.pi\<close> is \<open>pi\<close>. The unit conversions \<^verbatim>\<open>.to(u.m).value\<close> and the
  final \<^verbatim>\<open>*u.T\<close> only tag or untag a number and are left out: every argument is the
  plain number in SI base units. A class is a record whose field names carry a prefix of
  the class (\<open>p0\<close> and \<open>current\<close> are attributes of several classes), a constructor
  returns the object or the exception it raises, and a method takes the object first.
\<close>

subsection \<open>MagneticDipole\<close>

record MagneticDipole =
  dp_moment :: fvec
  dp_p0 :: fvec

definition MagneticDipole_init :: "fvec \<Rightarrow> fvec \<Rightarrow> error + MagneticDipole" where
  "MagneticDipole_init moment p0 = Inr \<lparr>dp_moment = moment, dp_p0 = p0\<rparr>"

definition MagneticDipole_magnetic_field :: "real \<Rightarrow> MagneticDipole \<Rightarrow> fvec \<Rightarrow> fvec" where
  "MagneticDipole_magnetic_field mu0 self p =
     (let r = vsub p (dp_p0 self);
          m = dp_moment self
      in smul (fdiv (fdiv (Fin mu0) (Fin 4)) (Fin pi))
           (vsub (vdivs (vmuls (smul (Fin 3) r) (dot m r)) (fpow (vnorm r) 5))
                 (vdivs m (fpow (vnorm r) 3))))"

subsection \<open>GeneralWire\<close>

text \<open>
  The first argument of the constructor is any Python object; the constructor asks whether
  it is callable.
\<close>

datatype pyobj = Callable "fnum \<Rightarrow> fvec" | NotCallable

record GeneralWire =
  gw_parametric_eq :: "fnum \<Rightarrow> fvec"
  gw_t1 :: fnum
  gw_t2 :: fnum
  gw_current :: fnum

definition GeneralWire_init :: "pyobj \<Rightarrow> fnum \<Rightarrow> fnum \<Rightarrow> fnum \<Rightarrow> error + GeneralWire" where
  "GeneralWire_init parametric_eq t1 t2 current =
     (case parametric_eq of
        NotCallable \<Rightarrow> Inl ValueError_not_callable
      | Callable f \<Rightarrow>
          if flt t1 t2
          then Inr \<lparr>gw_parametric_eq = f, gw_t1 = t1, gw_t2 = t2, gw_current = current\<rparr>
          else Inl (ValueError_t1_not_smaller t1 t2))"

text \<open>
  The body of \<^verbatim>\<open>for i in range(n)\<close>, with the loop variables \<open>t\<close>, \<open>p1\<close> and \<open>B\<close> as the
  state. The source assigns \<^verbatim>\<open>p1 = p2\<close> before it computes \<^verbatim>\<open>R\<close>, and so does the model.
\<close>

fun gw_loop :: "(fnum \<Rightarrow> fvec) \<Rightarrow> fvec \<Rightarrow> fnum \<Rightarrow> nat \<Rightarrow> fnum \<Rightarrow> fvec \<Rightarrow> fvec \<Rightarrow> fvec" where
  "gw_loop eq p step 0 t p1 B = B"
| "gw_loop eq p step (Suc k) t p1 B =
     (let t' = fadd t step;
          p2 = eq t';
          dl = vsub p2 p1;
          p1' = p2;
          R = vsub p (vdivs (vadd p2 p1') (Fin 2));
          B' = vadd B (vdivs (cross dl R) (fpow (vnorm R) 3))
      in gw_loop eq p step k t' p1' B')"

text \<open>
  \<open>n\<close> is a Python int and the bounds are Python numbers (\<^verbatim>\<open>to_GeneralWire\<close> passes
  \<^verbatim>\<open>0, 1\<close> and \<^verbatim>\<open>-np.pi, np.pi\<close>), so \<^verbatim>\<open>(self.t2 - self.t1) / n\<close> raises for \<open>n = 0\<close>.
  \<^verbatim>\<open>range(n)\<close> is empty for a negative \<open>n\<close>. The accumulator starts as the scalar \<open>0\<close>,
  which the first \<^verbatim>\<open>+=\<close> broadcasts to a vector; the model starts with the zero vector,
  so that for a negative \<open>n\<close>, where the source returns the scaled scalar \<open>0\<close>, the model
  has that number in each component.
\<close>

definition GeneralWire_magnetic_field ::
  "real \<Rightarrow> GeneralWire \<Rightarrow> fvec \<Rightarrow> int \<Rightarrow> error + fvec" where
  "GeneralWire_magnetic_field mu0 self p n =
     (if n = 0 then Inl ZeroDivisionError
      else
        let p1 = gw_parametric_eq self (gw_t1 self);
            step = fdiv (fsub (gw_t2 self) (gw_t1 self)) (Fin (of_int n));
            t = gw_t1 self;
            B = gw_loop (gw_parametric_eq self) p step (nat n) t p1 (Fin 0, Fin 0, Fin 0)
        in Inr (vmuls (vdivs (vdivs (vmuls B (Fin mu0)) (Fin 4)) (Fin pi)) (gw_current self)))"

subsection \<open>FiniteStraightWire\<close>

record FiniteStraightWire =
  fsw_p1 :: fvec
  fsw_p2 :: fvec
  fsw_current :: fnum

definition FiniteStraightWire_init :: "fvec \<Rightarrow> fvec \<Rightarrow> fnum \<Rightarrow> error + FiniteStraightWire" where
  "FiniteStraightWire_init p1 p2 current =
     (if all_eq p1 p2 then Inl ValueError_same_point
      else Inr \<lparr>fsw_p1 = p1, fsw_p2 = p2, fsw_current = current\<rparr>)"

definition FiniteStraightWire_magnetic_field ::
  "real \<Rightarrow> FiniteStraightWire \<Rightarrow> fvec \<Rightarrow> fvec" where
  "FiniteStraightWire_magnetic_field mu0 self p =
     (let p1 = fsw_p1 self;
          p2 = fsw_p2 self;
          p2_p1 = vsub p2 p1;
          ratio = fdiv (dot (vsub p p1) p2_p1) (dot p2_p1 p2_p1);
          pf = vadd p1 (vmuls p2_p1 ratio);
          cos_theta_1 = fdiv (fdiv (dot (vsub p p1) p2_p1) (vnorm (vsub p p1))) (vnorm p2_p1);
          cos_theta_2 = fdiv (fdiv (dot (vsub p p2) p2_p1) (vnorm (vsub p p2))) (vnorm p2_p1);
          B_unit = cross p2_p1 (vsub p pf);
          B_unit = vdivs B_unit (vnorm B_unit)
      in vmuls
           (vdivs
              (vdivs
                 (vmuls
                    (vmuls (vdivs B_unit (vnorm (vsub p pf))) (fsub cos_theta_1 cos_theta_2))
                    (Fin mu0))
                 (Fin 4))
              (Fin pi))
           (fsw_current self))"

definition FiniteStraightWire_to_GeneralWire :: "FiniteStraightWire \<Rightarrow> error + GeneralWire" where
  "FiniteStraightWire_to_GeneralWire self =
     (let p1 = fsw_p1 self;
          p2 = fsw_p2 self
      in GeneralWire_init (Callable (\<lambda>t. vadd p1 (vmuls (vsub p2 p1) t)))
           (Fin 0) (Fin 1) (fsw_current self))"

subsection \<open>InfiniteStraightWire\<close>

record InfiniteStraightWire =
  isw_direction :: fvec
  isw_p0 :: fvec
  isw_current :: fnum

definition InfiniteStraightWire_init ::
  "fvec \<Rightarrow> fvec \<Rightarrow> fnum \<Rightarrow> error + InfiniteStraightWire" where
  "InfiniteStraightWire_init direction p0 current =
     Inr \<lparr>isw_direction = vdivs direction (vnorm direction),
          isw_p0 = p0,
          isw_current = current\<rparr>"

definition InfiniteStraightWire_magnetic_field ::
  "real \<Rightarrow> InfiniteStraightWire \<Rightarrow> fvec \<Rightarrow> fvec" where
  "InfiniteStraightWire_magnetic_field mu0 self p =
     (let r = cross (isw_direction self) (vsub p (isw_p0 self));
          B_unit = vdivs r (vnorm r);
          r = vnorm r
      in vmuls (vdivs (vdivs (vmuls (vdivs B_unit r) (Fin mu0)) (Fin 2)) (Fin pi))
           (isw_current self))"

subsection \<open>CircularWire\<close>

text \<open>
  \<^verbatim>\<open>scipy.special.roots_legendre\<close> is not part of the repository: the constructor takes
  it as the parameter \<open>roots_legendre\<close>, a function from the order \<open>n\<close> to the array of
  nodes and the array of weights.
\<close>

record CircularWire =
  cw_normal :: fvec
  cw_center :: fvec
  cw_radius :: fnum
  cw_current :: fnum
  cw_axis_x :: fvec
  cw_axis_y :: fvec
  cw_roots_legendre :: "fnum list \<times> fnum list"
  cw_n :: int

definition CircularWire_init ::
  "(int \<Rightarrow> fnum list \<times> fnum list) \<Rightarrow> fvec \<Rightarrow> fvec \<Rightarrow> fnum \<Rightarrow> fnum \<Rightarrow> int
     \<Rightarrow> error + CircularWire" where
  "CircularWire_init roots_legendre normal center radius current n =
     (let normal' = vdivs normal (vnorm normal)
      in if flt (Fin 0) radius
         then
           let z = (Fin 0, Fin 0, Fin 1);
               axis_x = cross z normal';
               axis_y = cross normal' axis_x;
               (axis_x, axis_y) =
                 (if feq (vnorm axis_x) (Fin 0)
                  then ((Fin 1, Fin 0, Fin 0), (Fin 0, Fin 1, Fin 0))
                  else (vdivs axis_x (vnorm axis_x), vdivs axis_y (vnorm axis_y)))
           in Inr \<lparr>cw_normal = normal', cw_center = center, cw_radius = radius,
                   cw_current = current, cw_axis_x = axis_x, cw_axis_y = axis_y,
                   cw_roots_legendre = roots_legendre n, cw_n = n\<rparr>
         else Inl ValueError_radius)"

text \<open>
  The closure \<^verbatim>\<open>curve\<close>. It reads \<^verbatim>\<open>self.radius\<close> and \<^verbatim>\<open>self.center\<close> and the
  constructor's locals \<^verbatim>\<open>axis_x\<close>, \<^verbatim>\<open>axis_y\<close>, which are the values stored in
  \<^verbatim>\<open>self.axis_x\<close>, \<^verbatim>\<open>self.axis_y\<close>. For an array of parameters the matrix branch
  computes the same point in every column.
\<close>

definition CircularWire_curve :: "CircularWire \<Rightarrow> fnum \<Rightarrow> fvec" where
  "CircularWire_curve self t =
     vadd (smul (cw_radius self)
             (vadd (smul (fcos t) (cw_axis_x self)) (smul (fsin t) (cw_axis_y self))))
          (cw_center self)"

text \<open>One row of \<^verbatim>\<open>ft\<close>: the integrand at the node \<open>x\<close>.\<close>

definition cw_ft :: "CircularWire \<Rightarrow> fvec \<Rightarrow> fnum \<Rightarrow> fvec" where
  "cw_ft self p x =
     (let t = fmul x (Fin pi);
          pt = CircularWire_curve self t;
          dl = smul (cw_radius self)
                 (vadd (vneg (vmuls (cw_axis_x self) (fsin t))) (vmuls (cw_axis_y self) (fcos t)));
          r = vsub p pt;
          r_norm_3 = fpow (vnorm r) 3
      in vdivs (cross dl r) r_norm_3)"

text \<open>\<^verbatim>\<open>np.matmul\<close> of the row of weights with the rows of \<^verbatim>\<open>ft\<close>.\<close>

fun weighted_sum :: "fnum list \<Rightarrow> fvec list \<Rightarrow> fvec" where
  "weighted_sum (w # ws) (f # fs) = vadd (smul w f) (weighted_sum ws fs)"
| "weighted_sum _ _ = (Fin 0, Fin 0, Fin 0)"

definition CircularWire_magnetic_field :: "real \<Rightarrow> CircularWire \<Rightarrow> fvec \<Rightarrow> fvec" where
  "CircularWire_magnetic_field mu0 self p =
     (let (x, w) = cw_roots_legendre self;
          ft = map (cw_ft self p) x
      in vmuls
           (vdivs (vdivs (vmuls (smul (Fin pi) (weighted_sum w ft)) (Fin mu0)) (Fin 4)) (Fin pi))
           (cw_current self))"

definition CircularWire_to_GeneralWire :: "CircularWire \<Rightarrow> error + GeneralWire" where
  "CircularWire_to_GeneralWire self =
     GeneralWire_init (Callable (CircularWire_curve self)) (Fin (- pi)) (Fin pi)
       (cw_current self)"

section \<open>Vectors over the reals\<close>

text \<open>
  The properties are stated with vectors of real numbers. \<open>fv\<close> is the array of floats
  that holds a real vector.
\<close>

type_synonym rvec = "real \<times> real \<times> real"

fun fv :: "rvec \<Rightarrow> fvec" where
  "fv (a1, a2, a3) = (Fin a1, Fin a2, Fin a3)"

fun radd :: "rvec \<Rightarrow> rvec \<Rightarrow> rvec" where
  "radd (a1, a2, a3) (b1, b2, b3) = (a1 + b1, a2 + b2, a3 + b3)"

fun rsub :: "rvec \<Rightarrow> rvec \<Rightarrow> rvec" where
  "rsub (a1, a2, a3) (b1, b2, b3) = (a1 - b1, a2 - b2, a3 - b3)"

fun rscale :: "real \<Rightarrow> rvec \<Rightarrow> rvec" where
  "rscale s (a1, a2, a3) = (s * a1, s * a2, s * a3)"

fun rdot :: "rvec \<Rightarrow> rvec \<Rightarrow> real" where
  "rdot (a1, a2, a3) (b1, b2, b3) = a1 * b1 + a2 * b2 + a3 * b3"

fun rcross :: "rvec \<Rightarrow> rvec \<Rightarrow> rvec" where
  "rcross (a1, a2, a3) (b1, b2, b3) =
     (a2 * b3 - a3 * b2, a3 * b1 - a1 * b3, a1 * b2 - a2 * b1)"

definition rnorm :: "rvec \<Rightarrow> real" where
  "rnorm v = sqrt (rdot v v)"

text \<open>The unit vector along a non-zero vector.\<close>

definition runit :: "rvec \<Rightarrow> rvec" where
  "runit v = rscale (1 / rnorm v) v"

fun rsum :: "rvec list \<Rightarrow> rvec" where
  "rsum [] = (0, 0, 0)"
| "rsum (v # vs) = radd v (rsum vs)"

text \<open>
  The sum of the specification for a curve \<open>l\<close>, written from its words (and from the
  formula in the docstring of \<^verbatim>\<open>GeneralWire.magnetic_field\<close>): the interval from \<open>t1\<close> to
  \<open>t2\<close> is cut into \<open>n\<close> equal steps; the step from \<open>s\<close> to \<open>t\<close> contributes
  \<open>(dl \<times> R)/|R|^3\<close> with the chord \<open>dl = l t - l s\<close> and the displacement \<open>R\<close> of
  the point from the midpoint \<open>(l s + l t)/2\<close> of the chord; the sum is scaled by
  \<open>mu0 I/(4 pi)\<close>.
\<close>

definition midpoint_term :: "(real \<Rightarrow> rvec) \<Rightarrow> rvec \<Rightarrow> real \<Rightarrow> real \<Rightarrow> rvec" where
  "midpoint_term l p s t =
     (let dl = rsub (l t) (l s);
          m = rscale (1 / 2) (radd (l s) (l t));
          R = rsub p m
      in rscale (1 / rnorm R ^ 3) (rcross dl R))"

definition midpoint_sum_field ::
  "real \<Rightarrow> (real \<Rightarrow> rvec) \<Rightarrow> real \<Rightarrow> real \<Rightarrow> real \<Rightarrow> rvec \<Rightarrow> nat \<Rightarrow> rvec" where
  "midpoint_sum_field mu0 l t1 t2 I p n =
     rscale (mu0 * I / (4 * pi))
       (rsum (map (\<lambda>i. midpoint_term l p (t1 + real i * ((t2 - t1) / real n))
                           (t1 + real (Suc i) * ((t2 - t1) / real n)))
                [0..<n]))"

text \<open>
  What one pass of the loop of \<^verbatim>\<open>GeneralWire.magnetic_field\<close> adds, over the reals: the
  displacement is taken from the end \<open>l t\<close> of the chord.
\<close>

definition endpoint_term :: "(real \<Rightarrow> rvec) \<Rightarrow> rvec \<Rightarrow> real \<Rightarrow> real \<Rightarrow> rvec" where
  "endpoint_term l p s t =
     (let dl = rsub (l t) (l s);
          R = rsub p (l t)
      in rscale (1 / rnorm R ^ 3) (rcross dl R))"

text \<open>
  The circle of the specification: the point
  \<open>l(\<theta>) = center + radius (cos \<theta> axis_x + sin \<theta> axis_y)\<close>, the tangent
  \<open>dl/d\<theta> = radius (- sin \<theta> axis_x + cos \<theta> axis_y)\<close> and the integrand
  \<open>(dl/d\<theta> \<times> (p - l(\<theta>))) / |p - l(\<theta>)|^3\<close> of the law of Biot and Savart.
\<close>

definition circle_point :: "rvec \<Rightarrow> real \<Rightarrow> rvec \<Rightarrow> rvec \<Rightarrow> real \<Rightarrow> rvec" where
  "circle_point c r ax ay \<theta> = radd c (rscale r (radd (rscale (cos \<theta>) ax) (rscale (sin \<theta>) ay)))"

definition circle_tangent :: "real \<Rightarrow> rvec \<Rightarrow> rvec \<Rightarrow> real \<Rightarrow> rvec" where
  "circle_tangent r ax ay \<theta> = rscale r (radd (rscale (- sin \<theta>) ax) (rscale (cos \<theta>) ay))"

definition loop_integrand :: "rvec \<Rightarrow> real \<Rightarrow> rvec \<Rightarrow> rvec \<Rightarrow> rvec \<Rightarrow> real \<Rightarrow> rvec" where
  "loop_integrand c r ax ay p \<theta> =
     rscale (1 / rnorm (rsub p (circle_point c r ax ay \<theta>)) ^ 3)
       (rcross (circle_tangent r ax ay \<theta>) (rsub p (circle_point c r ax ay \<theta>)))"


section \<open>Floats that hold real numbers\<close>

lemma fsub_Fin [simp]: "fsub (Fin a) (Fin b) = Fin (a - b)"
  by (simp add: fsub_def)

lemma fpow_Fin [simp]: "fpow (Fin a) k = Fin (a ^ k)"
  by (induction k) simp_all

lemma feq_Fin [simp]: "feq (Fin a) (Fin b) = (a = b)"
  by (simp add: feq_def)

lemma rdot_self_nonneg: "0 \<le> rdot v v"
  by (cases v) simp

lemma rdot_self_zero: "rdot v v = 0 \<longleftrightarrow> v = (0, 0, 0)"
  by (cases v) (auto simp: sum_power2_eq_zero_iff add_nonneg_eq_0_iff)

lemma rnorm_zero_iff: "rnorm v = 0 \<longleftrightarrow> v = (0, 0, 0)"
  by (simp add: rnorm_def rdot_self_zero)

lemma rnorm_nonneg: "0 \<le> rnorm v"
  by (simp add: rnorm_def rdot_self_nonneg)

lemma rnorm_sq: "rnorm v ^ 2 = rdot v v"
  by (simp add: rnorm_def rdot_self_nonneg)

lemma vsub_fv [simp]: "vsub (fv a) (fv b) = fv (rsub a b)"
  by (cases a; cases b) simp

lemma vadd_fv [simp]: "vadd (fv a) (fv b) = fv (radd a b)"
  by (cases a; cases b) simp

lemma smul_fv [simp]: "smul (Fin s) (fv a) = fv (rscale s a)"
  by (cases a) simp

lemma vmuls_fv [simp]: "vmuls (fv a) (Fin s) = fv (rscale s a)"
  by (cases a) (simp add: mult.commute)

lemma vdivs_fv: "s \<noteq> 0 \<Longrightarrow> vdivs (fv a) (Fin s) = fv (rscale (1 / s) a)"
  by (cases a) simp

lemma dot_fv [simp]: "dot (fv a) (fv b) = Fin (rdot a b)"
  by (cases a; cases b) simp

lemma cross_fv [simp]: "cross (fv a) (fv b) = fv (rcross a b)"
  by (cases a; cases b) simp

lemma vnorm_fv [simp]: "vnorm (fv a) = Fin (rnorm a)"
  by (simp add: vnorm_def rnorm_def rdot_self_nonneg)

lemma vnorm_Fin: "vnorm (Fin a1, Fin a2, Fin a3) = Fin (rnorm (a1, a2, a3))"
  using vnorm_fv [of "(a1, a2, a3)"] by simp

lemma vneg_fv [simp]: "vneg (fv a) = fv (rscale (- 1) a)"
  by (cases a) simp

lemma fv_inject [simp]: "fv a = fv b \<longleftrightarrow> a = b"
  by (cases a; cases b) simp

lemma rscale_rscale [simp]: "rscale a (rscale b v) = rscale (a * b) v"
  by (cases v) simp

lemma rsub_zero_iff: "rsub a b = (0, 0, 0) \<longleftrightarrow> a = b"
  by (cases a; cases b) auto

lemma rnorm_rsub_zero_iff: "rnorm (rsub a b) = 0 \<longleftrightarrow> a = b"
  by (simp add: rnorm_zero_iff rsub_zero_iff)

lemma fmul_fneg_left: "fmul (fneg a) b = fneg (fmul a b)"
  by (cases a; cases b) (auto simp: inf_of_def)

lemma fmul_fneg_right: "fmul a (fneg b) = fneg (fmul a b)"
  by (cases a; cases b) (auto simp: inf_of_def)

lemma fdiv_fneg_left: "fdiv (fneg a) b = fneg (fdiv a b)"
  by (cases a; cases b) (auto simp: inf_of_def)

lemma fadd_fneg: "fadd (fneg a) (fneg b) = fneg (fadd a b)"
  by (cases a; cases b) auto

lemma fsub_fneg: "fsub (fneg a) (fneg b) = fneg (fsub a b)"
  by (simp add: fsub_def fadd_fneg)

lemma dot_vneg_left: "dot (vneg a) b = fneg (dot a b)"
  by (cases a; cases b) (simp add: fmul_fneg_left fadd_fneg)

lemma vmuls_fneg: "vmuls a (fneg s) = vneg (vmuls a s)"
  by (cases a) (simp add: fmul_fneg_right)

lemma vdivs_vneg: "vdivs (vneg a) s = vneg (vdivs a s)"
  by (cases a) (simp add: fdiv_fneg_left)

lemma vsub_vneg: "vsub (vneg a) (vneg b) = vneg (vsub a b)"
  by (cases a; cases b) (simp add: fsub_fneg)

lemma smul_vneg: "smul s (vneg a) = vneg (smul s a)"
  by (cases a) (simp add: fmul_fneg_right)


section \<open>The dipole\<close>




section \<open>Reversal of the source\<close>

text \<open>
  C9. Replacing the moment of a dipole by its negation negates the field the dipole
  returns, and replacing the current of an infinite straight wire by its negation negates
  the field the wire returns. This holds at every point, so in particular at the points
  off the dipole and off the wire's axis, where the fields are finite vectors.
\<close>

theorem field_antisymmetry:
  "MagneticDipole_magnetic_field mu0 (self\<lparr>dp_moment := vneg (dp_moment self)\<rparr>) p =
     vneg (MagneticDipole_magnetic_field mu0 self p)
   \<and> InfiniteStraightWire_magnetic_field mu0 (wire\<lparr>isw_current := fneg (isw_current wire)\<rparr>) p' =
     vneg (InfiniteStraightWire_magnetic_field mu0 wire p')"
  by (simp add: MagneticDipole_magnetic_field_def InfiniteStraightWire_magnetic_field_def
      Let_def dot_vneg_left vmuls_fneg vdivs_vneg vsub_vneg smul_vneg)

theorem field_antisymmetry_witness:
  "MagneticDipole_magnetic_field (4 * pi)
     \<lparr>dp_moment = fv (0, 0, - 1), dp_p0 = fv (0, 0, 0)\<rparr> (fv (0, 0, 2)) = fv (0, 0, - (1 / 4))
   \<and> InfiniteStraightWire_magnetic_field (4 * pi)
     \<lparr>isw_direction = fv (0, 0, 1), isw_p0 = fv (0, 0, 0), isw_current = Fin (- 1)\<rparr>
     (fv (1, 0, 0)) = fv (0, - 2, 0)"
proof -
  have n2: "rnorm (0, 0, 2) = 2"
    using real_sqrt_abs [of 2] by (simp add: rnorm_def)
  have n1: "rnorm (0, 1, 0) = 1"
    by (simp add: rnorm_def)
  have d: "MagneticDipole_magnetic_field (4 * pi)
     \<lparr>dp_moment = fv (0, 0, 1), dp_p0 = fv (0, 0, 0)\<rparr> (fv (0, 0, 2)) = fv (0, 0, 1 / 4)"
    by (simp add: MagneticDipole_magnetic_field_def Let_def vnorm_Fin n2)
  have w: "InfiniteStraightWire_magnetic_field (4 * pi)
     \<lparr>isw_direction = fv (0, 0, 1), isw_p0 = fv (0, 0, 0), isw_current = Fin 1\<rparr>
     (fv (1, 0, 0)) = fv (0, 2, 0)"
    by (simp add: InfiniteStraightWire_magnetic_field_def Let_def vnorm_Fin n1)
  show ?thesis
    using field_antisymmetry [where ?mu0.0 = "4 * pi"
        and self = "\<lparr>dp_moment = fv (0, 0, 1), dp_p0 = fv (0, 0, 0)\<rparr>"
        and p = "fv (0, 0, 2)"
        and wire = "\<lparr>isw_direction = fv (0, 0, 1), isw_p0 = fv (0, 0, 0), isw_current = Fin 1\<rparr>"
        and p' = "fv (1, 0, 0)"]
    unfolding d w by simp
qed


section \<open>Construction\<close>

lemma all_eq_fv [simp]: "all_eq (fv a) (fv b) \<longleftrightarrow> a = b"
  by (cases a; cases b) auto






section \<open>Conversion to a GeneralWire\<close>

lemma radd_commute: "radd a b = radd b a"
  by (cases a; cases b) simp

text \<open>
  C7. \<^verbatim>\<open>to_GeneralWire\<close> of a finite straight wire with the endpoints \<open>a\<close>, \<open>b\<close> returns a
  GeneralWire with the bounds 0 and 1, the wire's current and a curve that maps \<open>t\<close> to
  \<open>a + (b - a) t\<close>. \<^verbatim>\<open>to_GeneralWire\<close> of a circular wire returns a GeneralWire with the
  bounds \<open>- pi\<close> and \<open>pi\<close>, the wire's current and the wire's own curve, which maps \<open>\<theta>\<close>
  to \<open>center + radius (cos \<theta> axis_x + sin \<theta> axis_y)\<close>. The result is a value built
  by the constructor of GeneralWire; that it is a new object is not expressed here.
\<close>

theorem to_GeneralWire_result:
  "(\<exists>g. FiniteStraightWire_to_GeneralWire \<lparr>fsw_p1 = fv a, fsw_p2 = fv b, fsw_current = I\<rparr> =
          Inr \<lparr>gw_parametric_eq = g, gw_t1 = Fin 0, gw_t2 = Fin 1, gw_current = I\<rparr>
        \<and> (\<forall>t. g (Fin t) = fv (radd a (rscale t (rsub b a)))))
   \<and> CircularWire_to_GeneralWire self =
        Inr \<lparr>gw_parametric_eq = CircularWire_curve self, gw_t1 = Fin (- pi), gw_t2 = Fin pi,
             gw_current = cw_current self\<rparr>
   \<and> CircularWire_curve
        \<lparr>cw_normal = nrm, cw_center = fv c, cw_radius = Fin r, cw_current = I',
         cw_axis_x = fv ax, cw_axis_y = fv ay, cw_roots_legendre = rl, cw_n = n\<rparr> (Fin \<theta>) =
        fv (radd c (rscale r (radd (rscale (cos \<theta>) ax) (rscale (sin \<theta>) ay))))"
  by (simp add: FiniteStraightWire_to_GeneralWire_def CircularWire_to_GeneralWire_def
      GeneralWire_init_def CircularWire_curve_def Let_def radd_commute)

theorem to_GeneralWire_result_witness:
  "FiniteStraightWire_to_GeneralWire
     \<lparr>fsw_p1 = fv (0, 0, 0), fsw_p2 = fv (2, 0, 0), fsw_current = Fin 3\<rparr> =
     Inr \<lparr>gw_parametric_eq = \<lambda>t. vadd (fv (0, 0, 0)) (vmuls (vsub (fv (2, 0, 0)) (fv (0, 0, 0))) t),
          gw_t1 = Fin 0, gw_t2 = Fin 1, gw_current = Fin 3\<rparr>
   \<and> CircularWire_curve
        \<lparr>cw_normal = fv (0, 0, 1), cw_center = fv (1, 1, 1), cw_radius = Fin 2,
         cw_current = Fin 1, cw_axis_x = fv (1, 0, 0), cw_axis_y = fv (0, 1, 0),
         cw_roots_legendre = ([], []), cw_n = 300\<rparr> (Fin 0) = fv (3, 1, 1)"
  using to_GeneralWire_result [where a = "(0, 0, 0)" and b = "(2, 0, 0)" and I = "Fin 3"
      and c = "(1, 1, 1)" and r = 2 and ax = "(1, 0, 0)" and ay = "(0, 1, 0)" and \<theta> = 0
      and nrm = "fv (0, 0, 1)" and I' = "Fin 1" and rl = "([], [])" and n = 300]
  by (simp add: FiniteStraightWire_to_GeneralWire_def GeneralWire_init_def Let_def)

section \<open>The infinite straight wire\<close>

lemma rcross_zero_parallel:
  assumes "rcross d v = (0, 0, 0)" and "d \<noteq> (0, 0, 0)"
  shows "\<exists>t. v = rscale t d"
proof -
  obtain d1 d2 d3 where d: "d = (d1, d2, d3)" by (cases d) auto
  obtain v1 v2 v3 where v: "v = (v1, v2, v3)" by (cases v) auto
  from assms(1) have e: "d2 * v3 = d3 * v2" "d3 * v1 = d1 * v3" "d1 * v2 = d2 * v1"
    by (simp_all add: d v)
  from assms(2) consider "d1 \<noteq> 0" | "d2 \<noteq> 0" | "d3 \<noteq> 0"
    by (auto simp: d)
  then show ?thesis
  proof cases
    case 1
    then have "v = rscale (v1 / d1) d"
      using e by (simp add: d v field_simps)
    then show ?thesis ..
  next
    case 2
    then have "v = rscale (v2 / d2) d"
      using e by (simp add: d v field_simps)
    then show ?thesis ..
  next
    case 3
    then have "v = rscale (v3 / d3) d"
      using e by (simp add: d v field_simps)
    then show ?thesis ..
  qed
qed

lemma rsub_eq_iff: "rsub p a = v \<longleftrightarrow> p = radd a v"
  by (cases p; cases a; cases v) auto

lemma off_line_rcross:
  assumes "d \<noteq> (0, 0, 0)" and "\<forall>t. p \<noteq> radd a (rscale t d)"
  shows "rcross d (rsub p a) \<noteq> (0, 0, 0)"
proof
  assume "rcross d (rsub p a) = (0, 0, 0)"
  then obtain t where "rsub p a = rscale t d"
    using rcross_zero_parallel assms(1) by blast
  then have "p = radd a (rscale t d)"
    by (simp add: rsub_eq_iff)
  with assms(2) show False by blast
qed




section \<open>The finite straight wire\<close>

lemma rcross_foot:
  "rcross d (rsub p (radd a (rscale s d))) = rcross d (rsub p a)"
  by (cases d; cases p; cases a) (simp add: algebra_simps)

lemma rdot_foot:
  assumes "rdot d d \<noteq> 0"
  shows "rdot (rsub p (radd a (rscale (rdot (rsub p a) d / rdot d d) d))) d = 0"
proof -
  obtain d1 d2 d3 where d: "d = (d1, d2, d3)" by (cases d) auto
  obtain p1 p2 p3 where p: "p = (p1, p2, p3)" by (cases p) auto
  obtain a1 a2 a3 where a: "a = (a1, a2, a3)" by (cases a) auto
  define s where "s = rdot (rsub p a) d / rdot d d"
  have "s * rdot d d = rdot (rsub p a) d"
    using assms by (simp add: s_def)
  then have "rdot (rsub p (radd a (rscale s d))) d = 0"
    by (simp add: d p a algebra_simps)
  then show ?thesis by (simp add: s_def)
qed

lemma rdot_rscale: "rdot (rscale s a) (rscale t b) = s * t * rdot a b"
  by (cases a; cases b) (simp add: algebra_simps)

lemma rnorm_runit: "v \<noteq> (0, 0, 0) \<Longrightarrow> rnorm (runit v) = 1"
proof -
  assume nz: "v \<noteq> (0, 0, 0)"
  have "rdot (runit v) (runit v) = rdot v v / (rnorm v) ^ 2"
    by (simp add: runit_def rdot_rscale power2_eq_square)
  also have "\<dots> = 1"
    using nz by (simp add: rnorm_sq rdot_self_zero)
  finally show ?thesis by (simp add: rnorm_def)
qed

lemma rnorm_eqI: "0 \<le> n \<Longrightarrow> rdot v v = n * n \<Longrightarrow> rnorm v = n"
  by (simp add: rnorm_def)




section \<open>The circular wire\<close>

lemma rdot_rcross_left [simp]: "rdot (rcross a b) a = 0"
  by (cases a; cases b) (simp add: algebra_simps)

lemma rdot_rcross_right [simp]: "rdot (rcross a b) b = 0"
  by (cases a; cases b) (simp add: algebra_simps)

lemma rdot_commute: "rdot a b = rdot b a"
  by (cases a; cases b) (simp add: algebra_simps)

lemma rdot_runit_left: "rdot (runit a) b = rdot a b / rnorm a"
  by (cases a; cases b) (simp add: runit_def algebra_simps add_divide_distrib)

lemma rdot_runit_right: "rdot a (runit b) = rdot a b / rnorm b"
  by (simp add: rdot_commute [of a] rdot_runit_left)

lemma vdivs_rnorm_fv: "v \<noteq> (0, 0, 0) \<Longrightarrow> vdivs (fv v) (Fin (rnorm v)) = fv (runit v)"
  by (simp add: vdivs_fv rnorm_zero_iff runit_def)

text \<open>The second axis before normalisation has the length of the first.\<close>

lemma rcross_unit_orth:
  assumes "rnorm u = 1"
  shows "rdot (rcross u (rcross z u)) (rcross u (rcross z u)) = rdot (rcross z u) (rcross z u)"
proof -
  obtain u1 u2 u3 where u: "u = (u1, u2, u3)" by (cases u) auto
  obtain z1 z2 z3 where z: "z = (z1, z2, z3)" by (cases z) auto
  have "rdot u u = 1"
    using rnorm_sq [of u] assms by simp
  then have one: "u1 * u1 + u2 * u2 + u3 * u3 = 1"
    by (simp add: u)
  have "rdot (rcross u (rcross z u)) (rcross u (rcross z u)) =
        (u1 * u1 + u2 * u2 + u3 * u3) * rdot (rcross z u) (rcross z u)"
    by (simp add: u z algebra_simps)
  then show ?thesis
    by (simp add: one)
qed

lemma CircularWire_init_finite:
  assumes "nrm \<noteq> (0, 0, 0)"
  shows "CircularWire_init rl (fv nrm) c r I n =
     (let u = runit nrm;
          x0 = rcross (0, 0, 1) u;
          y0 = rcross u x0
      in if flt (Fin 0) r
         then Inr \<lparr>cw_normal = fv u, cw_center = c, cw_radius = r, cw_current = I,
                   cw_axis_x = fv (if x0 = (0, 0, 0) then (1, 0, 0) else runit x0),
                   cw_axis_y = fv (if x0 = (0, 0, 0) then (0, 1, 0) else runit y0),
                   cw_roots_legendre = rl n, cw_n = n\<rparr>
         else Inl ValueError_radius)"
proof -
  define u where "u = runit nrm"
  define x0 where "x0 = rcross (0, 0, 1) u"
  define y0 where "y0 = rcross u x0"
  have nu: "rnorm u = 1"
    unfolding u_def by (rule rnorm_runit [OF assms])
  have normal: "vdivs (fv nrm) (vnorm (fv nrm)) = fv u"
    unfolding u_def vnorm_fv by (rule vdivs_rnorm_fv [OF assms])
  have z: "(Fin 0, Fin 0, Fin 1) = fv (0, 0, 1)"
    by simp
  have y0_nz: "y0 \<noteq> (0, 0, 0)" if "x0 \<noteq> (0, 0, 0)"
  proof -
    have "rdot y0 y0 = rdot x0 x0"
      unfolding y0_def x0_def by (rule rcross_unit_orth [OF nu])
    then show ?thesis
      using that rdot_self_zero [of x0] rdot_self_zero [of y0] by simp
  qed
  show ?thesis
    unfolding CircularWire_init_def Let_def normal z cross_fv
    using y0_nz
    by (simp add: vdivs_rnorm_fv rnorm_zero_iff flip: u_def x0_def y0_def)
qed

lemma runit_eqI: "0 < n \<Longrightarrow> rdot v v = n * n \<Longrightarrow> runit v = rscale (1 / n) v"
  by (simp add: runit_def rnorm_def)



lemma CircularWire_curve_finite:
  "CircularWire_curve
     \<lparr>cw_normal = nrm, cw_center = fv c, cw_radius = Fin r, cw_current = I,
      cw_axis_x = fv ax, cw_axis_y = fv ay, cw_roots_legendre = rl, cw_n = n\<rparr> (Fin \<theta>) =
   fv (circle_point c r ax ay \<theta>)"
  by (simp add: CircularWire_curve_def circle_point_def radd_commute)

lemma cw_ft_finite:
  assumes "p \<noteq> circle_point c r ax ay (x * pi)"
  shows "cw_ft \<lparr>cw_normal = nrm, cw_center = fv c, cw_radius = Fin r, cw_current = I,
      cw_axis_x = fv ax, cw_axis_y = fv ay, cw_roots_legendre = rl, cw_n = n\<rparr> (fv p) (Fin x) =
    fv (loop_integrand c r ax ay p (x * pi))"
proof -
  have nz: "rnorm (rsub p (circle_point c r ax ay (x * pi))) \<noteq> 0"
    using assms by (simp add: rnorm_rsub_zero_iff)
  have curve: "CircularWire_curve
     \<lparr>cw_normal = nrm, cw_center = fv c, cw_radius = Fin r, cw_current = I,
      cw_axis_x = fv ax, cw_axis_y = fv ay, cw_roots_legendre = rl, cw_n = n\<rparr> (Fin (x * pi)) =
     fv (circle_point c r ax ay (x * pi))"
    by (rule CircularWire_curve_finite)
  show ?thesis
    unfolding cw_ft_def Let_def fmul.simps curve
    using nz by (simp add: loop_integrand_def circle_tangent_def vdivs_fv)
qed

lemma weighted_sum_finite:
  assumes "length xs = length ws" and "\<forall>\<theta>. p \<noteq> circle_point c r ax ay \<theta>"
  shows "weighted_sum (map Fin ws)
           (map (cw_ft \<lparr>cw_normal = nrm, cw_center = fv c, cw_radius = Fin r, cw_current = I,
              cw_axis_x = fv ax, cw_axis_y = fv ay, cw_roots_legendre = rl, cw_n = n\<rparr> (fv p))
              (map Fin xs)) =
         fv (rsum (map2 (\<lambda>x w. rscale w (loop_integrand c r ax ay p (x * pi))) xs ws))"
  using assms
proof (induction xs ws rule: list_induct2)
  case Nil
  show ?case by simp
next
  case (Cons x xs w ws)
  have "p \<noteq> circle_point c r ax ay (x * pi)"
    using Cons.prems by blast
  then show ?case
    using Cons.IH Cons.prems by (simp add: cw_ft_finite)
qed




section \<open>The general wire\<close>

lemma radd_assoc: "radd (radd a b) c = radd a (radd b c)"
  by (cases a; cases b; cases c) simp

lemma radd_zero_left: "radd (0, 0, 0) v = v"
  by (cases v) simp

lemma half_double: "rscale (1 / 2) (radd v v) = v"
  by (cases v) simp

text \<open>
  The loop over the reals. For a curve that returns finite points and a point \<open>p\<close> other
  than the sampled points, \<open>k\<close> passes from the parameter \<open>t\<close> add the terms
  \<open>endpoint_term\<close> of the \<open>k\<close> steps: after \<^verbatim>\<open>p1 = p2\<close> the expression
  \<^verbatim>\<open>(p2 + p1) / 2\<close> is the end \<open>p2\<close> of the chord, not its midpoint.
\<close>

lemma gw_loop_finite:
  assumes "\<forall>t. eq (Fin t) = fv (l t)"
    and "\<forall>i<k. p \<noteq> l (t + real (Suc i) * h)"
  shows "gw_loop eq (fv p) (Fin h) k (Fin t) (fv (l t)) (fv B) =
         fv (radd B (rsum (map (\<lambda>i. endpoint_term l p (t + real i * h) (t + real (Suc i) * h))
                             [0..<k])))"
  using assms(2)
proof (induction k arbitrary: t B)
  case 0
  show ?case by (cases B) simp
next
  case (Suc k)
  have first: "p \<noteq> l (t + h)"
    using Suc.prems by force
  then have nz: "rnorm (rsub p (l (t + h))) \<noteq> 0"
    by (simp add: rnorm_rsub_zero_iff)
  have rest: "\<forall>i<k. p \<noteq> l (t + h + real (Suc i) * h)"
  proof (intro allI impI)
    fix i assume "i < k"
    then have "p \<noteq> l (t + real (Suc (Suc i)) * h)"
      using Suc.prems by (metis Suc_less_eq)
    then show "p \<noteq> l (t + h + real (Suc i) * h)"
      by (simp add: algebra_simps)
  qed
  have shift: "map (\<lambda>i. endpoint_term l p (t + real i * h) (t + real (Suc i) * h)) [0..<Suc k] =
      endpoint_term l p t (t + h) #
      map (\<lambda>i. endpoint_term l p (t + h + real i * h) (t + h + real (Suc i) * h)) [0..<k]"
    by (simp add: map_upt_Suc algebra_simps del: upt_Suc)
  have step: "gw_loop eq (fv p) (Fin h) (Suc k) (Fin t) (fv (l t)) (fv B) =
      gw_loop eq (fv p) (Fin h) k (Fin (t + h)) (fv (l (t + h)))
        (fv (radd B (endpoint_term l p t (t + h))))"
    using nz assms(1)
    by (simp add: Let_def vdivs_fv half_double endpoint_term_def)
  show ?case
    unfolding step Suc.IH [OF rest] shift
    by (simp add: radd_assoc)
qed

text \<open>
  The field the code returns for \<open>n \<ge> 1\<close> segments: the sum of the terms with the
  displacement from the end of each chord, scaled by \<open>mu0 I/(4 pi)\<close>.
\<close>

lemma GeneralWire_magnetic_field_endpoint_sum:
  assumes "\<forall>t. eq (Fin t) = fv (l t)"
    and "0 < n"
    and "\<forall>i<n. p \<noteq> l (t1 + real (Suc i) * ((t2 - t1) / real n))"
  shows "GeneralWire_magnetic_field mu0
           \<lparr>gw_parametric_eq = eq, gw_t1 = Fin t1, gw_t2 = Fin t2, gw_current = Fin I\<rparr>
           (fv p) (int n) =
         Inr (fv (rscale (mu0 * I / (4 * pi))
                (rsum (map (\<lambda>i. endpoint_term l p (t1 + real i * ((t2 - t1) / real n))
                                    (t1 + real (Suc i) * ((t2 - t1) / real n)))
                         [0..<n]))))"
proof -
  define h where "h = (t2 - t1) / real n"
  define S where "S = rsum (map (\<lambda>i. endpoint_term l p (t1 + real i * h)
                                      (t1 + real (Suc i) * h)) [0..<n])"
  have start: "eq (Fin t1) = fv (l t1)"
    using assms(1) by blast
  have off: "\<forall>i<n. p \<noteq> l (t1 + real (Suc i) * h)"
    using assms(3) unfolding h_def .
  have loop: "gw_loop eq (fv p) (Fin h) n (Fin t1) (fv (l t1)) (fv (0, 0, 0)) = fv S"
    unfolding S_def gw_loop_finite [OF assms(1) off] radd_zero_left ..
  have field: "GeneralWire_magnetic_field mu0
      \<lparr>gw_parametric_eq = eq, gw_t1 = Fin t1, gw_t2 = Fin t2, gw_current = Fin I\<rparr>
      (fv p) (int n) =
      Inr (vmuls (vdivs (vdivs (vmuls
        (gw_loop eq (fv p) (Fin h) n (Fin t1) (fv (l t1)) (fv (0, 0, 0)))
        (Fin mu0)) (Fin 4)) (Fin pi)) (Fin I))"
    using assms(2) by (simp add: GeneralWire_magnetic_field_def Let_def start h_def)
  have "GeneralWire_magnetic_field mu0
      \<lparr>gw_parametric_eq = eq, gw_t1 = Fin t1, gw_t2 = Fin t2, gw_current = Fin I\<rparr>
      (fv p) (int n) = Inr (fv (rscale (mu0 * I / (4 * pi)) S))"
    unfolding field loop by (simp add: vdivs_fv mult_ac)
  then show ?thesis
    unfolding S_def h_def .
qed

text \<open>
  C1. The claim, like the docstring of the method, takes the displacement \<open>R\<close> from the
  midpoint of each chord. The code takes it from the end of the chord. For the straight
  curve \<open>l t = (6 t, 0, 0)\<close> on \<open>[0, 1]\<close> with the current 1, one segment, the point
  \<open>(3, 4, 0)\<close> and \<open>mu0 = 4 pi\<close>, the code returns \<open>(0, 0, 24/125)\<close>, and the sum with the
  midpoint is \<open>(0, 0, 3/8)\<close>.
\<close>

theorem general_wire_endpoint_not_midpoint:
  "GeneralWire_magnetic_field (4 * pi)
     \<lparr>gw_parametric_eq = (\<lambda>t. vmuls (fv (6, 0, 0)) t), gw_t1 = Fin 0, gw_t2 = Fin 1,
      gw_current = Fin 1\<rparr> (fv (3, 4, 0)) 1 = Inr (fv (0, 0, 24 / 125))
   \<and> midpoint_sum_field (4 * pi) (\<lambda>t. rscale t (6, 0, 0)) 0 1 1 (3, 4, 0) 1 = (0, 0, 3 / 8)
   \<and> GeneralWire_magnetic_field (4 * pi)
     \<lparr>gw_parametric_eq = (\<lambda>t. vmuls (fv (6, 0, 0)) t), gw_t1 = Fin 0, gw_t2 = Fin 1,
      gw_current = Fin 1\<rparr> (fv (3, 4, 0)) 1 \<noteq>
     Inr (fv (midpoint_sum_field (4 * pi) (\<lambda>t. rscale t (6, 0, 0)) 0 1 1 (3, 4, 0) 1))"
proof -
  have n5: "rnorm (- 3, 4, 0) = 5" by (rule rnorm_eqI) simp_all
  have n4: "rnorm (0, 4, 0) = 4" by (rule rnorm_eqI) simp_all
  have code: "GeneralWire_magnetic_field (4 * pi)
     \<lparr>gw_parametric_eq = (\<lambda>t. vmuls (fv (6, 0, 0)) t), gw_t1 = Fin 0, gw_t2 = Fin 1,
      gw_current = Fin 1\<rparr> (fv (3, 4, 0)) 1 = Inr (fv (0, 0, 24 / 125))"
    by (simp add: GeneralWire_magnetic_field_def Let_def vnorm_Fin n5)
  have spec: "midpoint_sum_field (4 * pi) (\<lambda>t. rscale t (6, 0, 0)) 0 1 1 (3, 4, 0) 1 = (0, 0, 3 / 8)"
    by (simp add: midpoint_sum_field_def midpoint_term_def Let_def n4)
  show ?thesis
    unfolding code spec by simp
qed

end
